theory Spec2Isabelle
  imports Complex_Main
begin

section \<open>Event registration: the registration record and its store\<close>

text \<open>
  The development follows \<^verbatim>\<open>src/components/EventRegistrationApp.tsx\<close>. The second
  variant, \<^verbatim>\<open>EventRegistrationApp.web.tsx\<close>, has the same handlers word for word and
  two more descriptive fields (church, zone) that no handler modelled here reads.

  Conventions of the embedding:
  \<^item> a JavaScript \<^verbatim>\<open>number\<close> is a \<open>js_number\<close>: \<^verbatim>\<open>NaN\<close>, an infinity, or the rational
    that a finite double is equal to; sums and differences are rounded to the nearest
    double as IEEE 754 does. Only the sign of zero is left out: \<open>-0\<close> is \<open>0\<close>;
  \<^item> a JavaScript string is a \<open>string\<close>, read as the bytes of its UTF-8 encoding;
  \<^item> an optional property (\<^verbatim>\<open>guestName?: string\<close>) is an \<open>option\<close>, \<open>None\<close> being
    \<^verbatim>\<open>undefined\<close>;
  \<^item> a handler closes over the \<^verbatim>\<open>registrations\<close> array of the render that created it;
    in the model that array is the handler's first argument, and the handler returns the
    array it passes to \<^verbatim>\<open>saveRegistrations\<close>.
\<close>

subsection \<open>JavaScript numbers\<close>

text \<open>
  A \<^verbatim>\<open>number\<close> is an IEEE 754 double. \<open>Num x\<close> is the finite double equal to the rational
  \<open>x\<close>. The handlers add, subtract and compare numbers (lines 644-652, 775, 799, 902), so
  these are the operations modelled.
\<close>

datatype js_number = NaN | PosInfinity | NegInfinity | Num rat

text \<open>The number of binary digits of a positive integer.\<close>

function bitLength :: "int \<Rightarrow> int" where
  "bitLength n = (if n \<le> 0 then 0 else 1 + bitLength (n div 2))"
  by pat_completeness auto
termination
  by (relation "measure nat") auto

declare bitLength.simps [simp del]

definition pow2 :: "int \<Rightarrow> rat" where
  "pow2 k = (if 0 \<le> k then 2 ^ nat k else 1 / 2 ^ nat (- k))"

text \<open>For \<open>x > 0\<close>, the integer \<open>e\<close> with \<open>2 ^ e \<le> x < 2 ^ (e + 1)\<close>.\<close>

definition exponentOf :: "rat \<Rightarrow> int" where
  "exponentOf x =
     (let d = bitLength (fst (quotient_of x)) - bitLength (snd (quotient_of x))
      in if pow2 d \<le> x then d else d - 1)"

text \<open>The nearest integer, the even one of the two when \<open>x\<close> lies half way.\<close>

definition roundHalfEven :: "rat \<Rightarrow> int" where
  "roundHalfEven x =
     (let n = \<lfloor>x\<rfloor>; r = x - of_int n
      in if r < 1 / 2 then n else if 1 / 2 < r then n + 1 else if even n then n else n + 1)"

text \<open>
  The double nearest to a rational (round to nearest, ties to even): 53 significant binary
  digits, the exponent not below -1022 (below it the doubles are spaced \<open>2 ^ -1074\<close>
  apart), and an infinity when the rounded magnitude reaches \<open>2 ^ 1024\<close>.
\<close>

definition roundDouble :: "rat \<Rightarrow> js_number" where
  "roundDouble x =
     (if x = 0 then Num 0
      else
        let a = \<bar>x\<bar>;
            e = max (exponentOf a) (- 1022);
            q = pow2 (e - 52);
            m = roundHalfEven (a / q)
        in if 1023 < e then (if 0 < x then PosInfinity else NegInfinity)
           else if e = 1023 \<and> 2 ^ 53 \<le> m then (if 0 < x then PosInfinity else NegInfinity)
           else Num (if 0 < x then of_int m * q else - (of_int m * q)))"

text \<open>
  \<open>+\<close>, unary and binary \<open>-\<close>, \<open><\<close> and \<open>\<le>\<close> on \<open>js_number\<close> are the operators of
  JavaScript: the sum of two finite doubles is their exact sum rounded, \<^verbatim>\<open>NaN\<close> and the
  infinities follow IEEE 754, and every comparison with \<^verbatim>\<open>NaN\<close> is false. \<open>0\<close> is
  \<open>Num 0\<close>. The HOL equality \<open>x = Num a\<close> is \<^verbatim>\<open>x === a\<close>, since \<open>Num a\<close> is not \<^verbatim>\<open>NaN\<close>.
\<close>

instantiation js_number :: "{zero, plus, uminus, minus, ord}"
begin

definition zero_js_number :: js_number where
  "zero_js_number = Num 0"

fun plus_js_number :: "js_number \<Rightarrow> js_number \<Rightarrow> js_number" where
  "plus_js_number NaN y = NaN"
| "plus_js_number x NaN = NaN"
| "plus_js_number PosInfinity NegInfinity = NaN"
| "plus_js_number NegInfinity PosInfinity = NaN"
| "plus_js_number PosInfinity y = PosInfinity"
| "plus_js_number x PosInfinity = PosInfinity"
| "plus_js_number NegInfinity y = NegInfinity"
| "plus_js_number x NegInfinity = NegInfinity"
| "plus_js_number (Num a) (Num b) = roundDouble (a + b)"

fun uminus_js_number :: "js_number \<Rightarrow> js_number" where
  "uminus_js_number NaN = NaN"
| "uminus_js_number PosInfinity = NegInfinity"
| "uminus_js_number NegInfinity = PosInfinity"
| "uminus_js_number (Num a) = Num (- a)"

definition minus_js_number :: "js_number \<Rightarrow> js_number \<Rightarrow> js_number" where
  "minus_js_number x y = x + (- y)"

fun less_js_number :: "js_number \<Rightarrow> js_number \<Rightarrow> bool" where
  "less_js_number NaN y = False"
| "less_js_number x NaN = False"
| "less_js_number PosInfinity y = False"
| "less_js_number x NegInfinity = False"
| "less_js_number NegInfinity y = True"
| "less_js_number x PosInfinity = True"
| "less_js_number (Num a) (Num b) = (a < b)"

definition less_eq_js_number :: "js_number \<Rightarrow> js_number \<Rightarrow> bool" where
  "less_eq_js_number x y \<longleftrightarrow> x < y \<or> (x \<noteq> NaN \<and> x = y)"

instance ..

end

definition isNaN :: "js_number \<Rightarrow> bool" where
  "isNaN x \<longleftrightarrow> x = NaN"

text \<open>
  \<^verbatim>\<open>parseFloat\<close> of the text of the amount field. The argument is the decimal number that
  the text starts with, \<open>None\<close> when it starts with none (the empty field); the result is
  the double nearest to it. The field is an \<^verbatim>\<open>input type="number"\<close>, whose text is never the
  word \<^verbatim>\<open>Infinity\<close>.
\<close>

definition parseFloat :: "rat option \<Rightarrow> js_number" where
  "parseFloat text = (case text of None \<Rightarrow> NaN | Some v \<Rightarrow> roundDouble v)"

subsection \<open>The Registration interface (lines 28-46)\<close>

datatype ticket_type = Solo | Guest

datatype payment_method = Cash | Transfer

datatype status = Paid | Pending

text \<open>
  \<open>paymentMethod\<close> is an option because \<^verbatim>\<open>handlePayment\<close> stores the state variable
  \<^verbatim>\<open>paymentMethod\<close>, which is \<^verbatim>\<open>null\<close> until a method is chosen, under a non-null
  assertion. The field \<^verbatim>\<open>id\<close> is called \<open>reg_id\<close>, since \<open>id\<close> is HOL's identity.
\<close>

record registration =
  reg_id :: string
  name :: string
  phone :: string
  email :: string
  ticketType :: ticket_type
  guestName :: "string option"
  totalDue :: js_number
  totalPaid :: js_number
  balance :: js_number
  paymentMethod :: "payment_method option"
  status :: status
  transactionRef :: "string option"
  receiptImage :: "string option"
  createdAt :: string
  ticketQR :: "string option"
  emailSent :: "bool option"
  checkedIn :: "bool option"

text \<open>
  \<^verbatim>\<open>Partial<Registration>\<close>: an object holding some of the properties. It is the list of
  its property assignments, in the order the object literal writes them.
\<close>

datatype field_update =
    Set_id string
  | Set_name string
  | Set_phone string
  | Set_email string
  | Set_ticketType ticket_type
  | Set_guestName "string option"
  | Set_totalDue js_number
  | Set_totalPaid js_number
  | Set_balance js_number
  | Set_paymentMethod "payment_method option"
  | Set_status status
  | Set_transactionRef "string option"
  | Set_receiptImage "string option"
  | Set_createdAt string
  | Set_ticketQR "string option"
  | Set_emailSent "bool option"
  | Set_checkedIn "bool option"

type_synonym updates = "field_update list"

fun assign :: "registration \<Rightarrow> field_update \<Rightarrow> registration" where
  "assign reg (Set_id v) = reg\<lparr>reg_id := v\<rparr>"
| "assign reg (Set_name v) = reg\<lparr>name := v\<rparr>"
| "assign reg (Set_phone v) = reg\<lparr>phone := v\<rparr>"
| "assign reg (Set_email v) = reg\<lparr>email := v\<rparr>"
| "assign reg (Set_ticketType v) = reg\<lparr>ticketType := v\<rparr>"
| "assign reg (Set_guestName v) = reg\<lparr>guestName := v\<rparr>"
| "assign reg (Set_totalDue v) = reg\<lparr>totalDue := v\<rparr>"
| "assign reg (Set_totalPaid v) = reg\<lparr>totalPaid := v\<rparr>"
| "assign reg (Set_balance v) = reg\<lparr>balance := v\<rparr>"
| "assign reg (Set_paymentMethod v) = reg\<lparr>paymentMethod := v\<rparr>"
| "assign reg (Set_status v) = reg\<lparr>status := v\<rparr>"
| "assign reg (Set_transactionRef v) = reg\<lparr>transactionRef := v\<rparr>"
| "assign reg (Set_receiptImage v) = reg\<lparr>receiptImage := v\<rparr>"
| "assign reg (Set_createdAt v) = reg\<lparr>createdAt := v\<rparr>"
| "assign reg (Set_ticketQR v) = reg\<lparr>ticketQR := v\<rparr>"
| "assign reg (Set_emailSent v) = reg\<lparr>emailSent := v\<rparr>"
| "assign reg (Set_checkedIn v) = reg\<lparr>checkedIn := v\<rparr>"

text \<open>The object spread \<^verbatim>\<open>{ ...reg, ...updates }\<close>: the properties of \<^verbatim>\<open>reg\<close>, each one
  that \<^verbatim>\<open>updates\<close> holds overwritten.\<close>

definition spread :: "registration \<Rightarrow> updates \<Rightarrow> registration" where
  "spread reg ups = foldl assign reg ups"

subsection \<open>The store (lines 78-88)\<close>

text \<open>
  \<^verbatim>\<open>
  const addRegistration = (registration: Registration) => {
    const updated = [...registrations, registration];
    saveRegistrations(updated);
  };
  const updateRegistration = (id: string, updates: Partial<Registration>) => {
    const updated = registrations.map(reg =>
      reg.id === id ? { ...reg, ...updates } : reg
    );
    saveRegistrations(updated);
  };
  \<close>
\<close>

definition addRegistration :: "registration list \<Rightarrow> registration \<Rightarrow> registration list" where
  "addRegistration registrations registration = registrations @ [registration]"

definition updateRegistration ::
  "registration list \<Rightarrow> string \<Rightarrow> updates \<Rightarrow> registration list" where
  "updateRegistration registrations i ups =
     map (\<lambda>reg. if reg_id reg = i then spread reg ups else reg) registrations"

subsection \<open>Built-in string functions the handlers call\<close>

text \<open>
  \<^verbatim>\<open>String.prototype.trim\<close> removes white space and line terminators from both ends:
  U+0009 to U+000D, U+0020, U+00A0, U+1680, U+2000 to U+200A, U+2028, U+2029, U+202F,
  U+205F, U+3000 and U+FEFF. \<open>whiteSpace\<close> lists their UTF-8 encodings.
\<close>

definition whiteSpace :: "string list" where
  "whiteSpace =
     [[CHR 0x09], [CHR 0x0A], [CHR 0x0B], [CHR 0x0C], [CHR 0x0D], [CHR 0x20],
      [CHR 0xC2, CHR 0xA0],
      [CHR 0xE1, CHR 0x9A, CHR 0x80],
      [CHR 0xE2, CHR 0x80, CHR 0x80], [CHR 0xE2, CHR 0x80, CHR 0x81],
      [CHR 0xE2, CHR 0x80, CHR 0x82], [CHR 0xE2, CHR 0x80, CHR 0x83],
      [CHR 0xE2, CHR 0x80, CHR 0x84], [CHR 0xE2, CHR 0x80, CHR 0x85],
      [CHR 0xE2, CHR 0x80, CHR 0x86], [CHR 0xE2, CHR 0x80, CHR 0x87],
      [CHR 0xE2, CHR 0x80, CHR 0x88], [CHR 0xE2, CHR 0x80, CHR 0x89],
      [CHR 0xE2, CHR 0x80, CHR 0x8A],
      [CHR 0xE2, CHR 0x80, CHR 0xA8], [CHR 0xE2, CHR 0x80, CHR 0xA9],
      [CHR 0xE2, CHR 0x80, CHR 0xAF],
      [CHR 0xE2, CHR 0x81, CHR 0x9F],
      [CHR 0xE3, CHR 0x80, CHR 0x80],
      [CHR 0xEF, CHR 0xBB, CHR 0xBF]]"

text \<open>The first of the patterns \<open>ps\<close> that the string starts with.\<close>

definition leading :: "string list \<Rightarrow> string \<Rightarrow> string option" where
  "leading ps s = find (\<lambda>p. p \<noteq> [] \<and> take (length p) s = p) ps"

function strip :: "string list \<Rightarrow> string \<Rightarrow> string" where
  "strip ps s = (case leading ps s of None \<Rightarrow> s | Some p \<Rightarrow> strip ps (drop (length p) s))"
  by pat_completeness auto
termination
proof (relation "measure (\<lambda>(ps, s). length s)")
  show "wf (measure (\<lambda>(ps, s). length s))"
    by simp
next
  fix ps :: "string list" and s p :: string
  assume "leading ps s = Some p"
  then have "p \<noteq> []" and "take (length p) s = p"
    by (auto simp: leading_def find_Some_iff)
  then have "s \<noteq> []"
    by auto
  with \<open>p \<noteq> []\<close> show "((ps, drop (length p) s), (ps, s)) \<in> measure (\<lambda>(ps, s). length s)"
    by simp
qed

definition trim :: "string \<Rightarrow> string" where
  "trim s = rev (strip (map rev whiteSpace) (rev (strip whiteSpace s)))"

text \<open>
  \<^verbatim>\<open>JSON.stringify\<close> of a string: the quotation mark and the backslash are escaped, the
  control characters below U+0020 are written \<^verbatim>\<open>\b \t \n \f \r\<close> or \<^verbatim>\<open>\u00xx\<close> with
  lower-case digits, every other character stands for itself.
\<close>

definition hexDigit :: "string \<Rightarrow> nat \<Rightarrow> char" where
  "hexDigit digits n = digits ! (n mod 16)"

definition quoteJSONChar :: "char \<Rightarrow> string" where
  "quoteJSONChar c =
     (if c = CHR 0x22 then [CHR 0x5C, CHR 0x22]
      else if c = CHR 0x5C then [CHR 0x5C, CHR 0x5C]
      else if c = CHR 0x08 then [CHR 0x5C, CHR ''b'']
      else if c = CHR 0x09 then [CHR 0x5C, CHR ''t'']
      else if c = CHR 0x0A then [CHR 0x5C, CHR ''n'']
      else if c = CHR 0x0C then [CHR 0x5C, CHR ''f'']
      else if c = CHR 0x0D then [CHR 0x5C, CHR ''r'']
      else if (of_char c :: nat) < 0x20
        then [CHR 0x5C, CHR ''u'', CHR ''0'', CHR ''0'',
              hexDigit ''0123456789abcdef'' (of_char c div 16),
              hexDigit ''0123456789abcdef'' (of_char c)]
      else [c])"

definition quoteJSONString :: "string \<Rightarrow> string" where
  "quoteJSONString s = [CHR 0x22] @ concat (map quoteJSONChar s) @ [CHR 0x22]"

text \<open>
  \<^verbatim>\<open>encodeURIComponent\<close>: letters, digits and \<^verbatim>\<open>- _ . ! ~ * ' ( )\<close> stand for themselves,
  every other byte of the UTF-8 encoding is written \<^verbatim>\<open>%XX\<close> with upper-case digits.
\<close>

definition uriUnreserved :: "char \<Rightarrow> bool" where
  "uriUnreserved c \<longleftrightarrow>
     (let n = (of_char c :: nat) in
        (0x41 \<le> n \<and> n \<le> 0x5A) \<or> (0x61 \<le> n \<and> n \<le> 0x7A) \<or> (0x30 \<le> n \<and> n \<le> 0x39)
        \<or> c \<in> set [CHR 0x2D, CHR 0x5F, CHR 0x2E, CHR 0x21, CHR 0x7E, CHR 0x2A, CHR 0x27,
                     CHR 0x28, CHR 0x29])"

definition encodeURIChar :: "char \<Rightarrow> string" where
  "encodeURIChar c =
     (if uriUnreserved c then [c]
      else [CHR 0x25, hexDigit ''0123456789ABCDEF'' (of_char c div 16),
            hexDigit ''0123456789ABCDEF'' (of_char c)])"

definition encodeURIComponent :: "string \<Rightarrow> string" where
  "encodeURIComponent s = concat (map encodeURIChar s)"

subsection \<open>Registration workflow: RegistrationPage (lines 153-235)\<close>

text \<open>
  What a handler reports through \<^verbatim>\<open>setError\<close>. The constructors are the classes of the
  specification's error taxonomy; each carries the message of the source, and
  \<open>PaymentIncompleteError\<close> the balance that the message displays.
\<close>

datatype error =
    ValidationError string
  | AuthorizationError string
  | NotFoundError string
  | PaymentIncompleteError js_number

record form_data =
  form_name :: string
  form_phone :: string
  form_email :: string
  form_ticketType :: ticket_type
  form_guestName :: string

text \<open>\<^verbatim>\<open>const ticketPrice = formData.ticketType === 'solo' ? 2000 : 3000;\<close>\<close>

definition ticketPrice :: "form_data \<Rightarrow> js_number" where
  "ticketPrice formData = (if form_ticketType formData = Solo then Num 2000 else Num 3000)"

text \<open>
  \<^verbatim>\<open>
  const handleSubmit = () => {
    if (!formData.name || !formData.phone || !formData.email) {
      setError('Please fill all required fields'); return;
    }
    if (formData.ticketType === 'guest' && !formData.guestName) {
      setError('Please enter guest name'); return;
    }
    setError(''); setPaymentStep(true);
  };
  \<close>
  \<open>None\<close>: the form moves on to the payment step.
\<close>

definition handleSubmit :: "form_data \<Rightarrow> error option" where
  "handleSubmit formData =
     (if form_name formData = [] \<or> form_phone formData = [] \<or> form_email formData = []
        then Some (ValidationError ''Please fill all required fields'')
      else if form_ticketType formData = Guest \<and> form_guestName formData = []
        then Some (ValidationError ''Please enter guest name'')
      else None)"

text \<open>
  The inputs of \<^verbatim>\<open>handlePayment\<close>: the state of the page (\<^verbatim>\<open>formData\<close>,
  \<^verbatim>\<open>paymentMethod\<close>, \<^verbatim>\<open>staffPin\<close>, \<^verbatim>\<open>transactionRef\<close>, \<^verbatim>\<open>receiptImage\<close>) and the two
  readings of the clock, \<^verbatim>\<open>Date.now().toString()\<close> and \<^verbatim>\<open>new Date().toISOString()\<close>.
\<close>

record payment_input =
  formData :: form_data
  chosenMethod :: "payment_method option"
  staffPin :: string
  enteredRef :: string
  uploadedReceipt :: "string option"
  now :: string
  nowISO :: string

text \<open>The object literal of lines 206-221.\<close>

definition newRegistration :: "payment_input \<Rightarrow> registration" where
  "newRegistration p =
     \<lparr> reg_id = now p,
       name = form_name (formData p),
       phone = form_phone (formData p),
       email = form_email (formData p),
       ticketType = form_ticketType (formData p),
       guestName = (if form_ticketType (formData p) = Guest
                    then Some (form_guestName (formData p)) else None),
       totalDue = ticketPrice (formData p),
       totalPaid = (if chosenMethod p = Some Cash then ticketPrice (formData p) else 0),
       balance = (if chosenMethod p = Some Cash then 0 else ticketPrice (formData p)),
       paymentMethod = chosenMethod p,
       status = (if chosenMethod p = Some Cash then Paid else Pending),
       transactionRef = (if chosenMethod p = Some Transfer then Some (enteredRef p) else None),
       receiptImage = (if chosenMethod p = Some Transfer then uploadedReceipt p else None),
       createdAt = nowISO p,
       ticketQR = None,
       emailSent = None,
       checkedIn = None \<rparr>"

text \<open>
  \<^verbatim>\<open>
  const handlePayment = () => {
    if (paymentMethod === 'cash') {
      if (staffPin !== '1234') { setError('Invalid Staff PIN'); return; }
    } else if (paymentMethod === 'transfer') {
      if (!transactionRef.trim()) { setError('Please enter transaction reference'); return; }
      if (!receiptImage) { setError('Please upload payment receipt'); return; }
    }
    const registration: Registration = { ... };
    onRegister(registration);
    ...
  };
  \<close>
  \<open>Inl\<close>: the error shown, nothing is registered. \<open>Inr\<close>: the record handed to
  \<^verbatim>\<open>onRegister\<close>. \<^verbatim>\<open>!receiptImage\<close> holds of \<^verbatim>\<open>null\<close> and of the empty string.
\<close>

definition handlePayment :: "payment_input \<Rightarrow> error + registration" where
  "handlePayment p =
     (if chosenMethod p = Some Cash then
        (if staffPin p \<noteq> ''1234'' then Inl (AuthorizationError ''Invalid Staff PIN'')
         else Inr (newRegistration p))
      else if chosenMethod p = Some Transfer then
        (if trim (enteredRef p) = []
           then Inl (ValidationError ''Please enter transaction reference'')
         else if uploadedReceipt p = None \<or> uploadedReceipt p = Some []
           then Inl (ValidationError ''Please upload payment receipt'')
         else Inr (newRegistration p))
      else Inr (newRegistration p))"

subsection \<open>E-ticket (lines 90-107)\<close>

text \<open>
  \<^verbatim>\<open>
  const generateQRCode = (registration: Registration): string => {
    const qrData = JSON.stringify({
      id: registration.id, name: registration.name,
      ticketType: registration.ticketType, guestName: registration.guestName,
    });
    return `https://api.qrserver.com/v1/create-qr-code/?size=300x300&data=${encodeURIComponent(qrData)}`;
  };
  \<close>
  \<^verbatim>\<open>JSON.stringify\<close> leaves out a property whose value is \<^verbatim>\<open>undefined\<close>.
\<close>

definition ticketTypeName :: "ticket_type \<Rightarrow> string" where
  "ticketTypeName t = (case t of Solo \<Rightarrow> ''solo'' | Guest \<Rightarrow> ''guest'')"

definition qrData :: "registration \<Rightarrow> string" where
  "qrData registration =
     ''{'' @ quoteJSONString ''id'' @ '':'' @ quoteJSONString (reg_id registration)
     @ '','' @ quoteJSONString ''name'' @ '':'' @ quoteJSONString (name registration)
     @ '','' @ quoteJSONString ''ticketType'' @ '':''
       @ quoteJSONString (ticketTypeName (ticketType registration))
     @ (case guestName registration of
          None \<Rightarrow> []
        | Some g \<Rightarrow> '','' @ quoteJSONString ''guestName'' @ '':'' @ quoteJSONString g)
     @ ''}''"

definition generateQRCode :: "registration \<Rightarrow> string" where
  "generateQRCode registration =
     ''https://api.qrserver.com/v1/create-qr-code/?size=300x300&data=''
     @ encodeURIComponent (qrData registration)"

text \<open>
  \<^verbatim>\<open>
  const sendETicket = async (registration: Registration) => {
    const qrCode = generateQRCode(registration);
    updateRegistration(registration.id, { ticketQR: qrCode, emailSent: true });
    return { to: registration.email, subject: 'Your Event E-Ticket', qrCode: qrCode };
  };
  \<close>
  The result is the array saved and the message returned.
\<close>

record eticket_mail =
  mail_to :: string
  mail_subject :: string
  mail_qrCode :: string

definition sendETicket :: "registration list \<Rightarrow> registration \<Rightarrow> registration list \<times> eticket_mail" where
  "sendETicket registrations registration =
     (let qrCode = generateQRCode registration
      in (updateRegistration registrations (reg_id registration)
            [Set_ticketQR (Some qrCode), Set_emailSent (Some True)],
          \<lparr> mail_to = email registration, mail_subject = ''Your Event E-Ticket'',
            mail_qrCode = qrCode \<rparr>))"

subsection \<open>Payment ledger: AdminDashboard (lines 622-657)\<close>

text \<open>
  \<^verbatim>\<open>
  const handleApprove = async (reg: Registration) => {
    onUpdateRegistration(reg.id, { status: 'paid', totalPaid: reg.totalDue, balance: 0 });
    setTimeout(() => { handleSendETicket(reg); }, 500);
  };
  \<close>
  \<open>handleApprove\<close> is the array saved at once. The timer is part of the application
  state below.
\<close>

definition handleApprove :: "registration list \<Rightarrow> registration \<Rightarrow> registration list" where
  "handleApprove registrations reg =
     updateRegistration registrations (reg_id reg)
       [Set_status Paid, Set_totalPaid (totalDue reg), Set_balance 0]"

text \<open>
  \<^verbatim>\<open>
  const handleAddPartialPayment = (reg: Registration) => {
    const amount = parseFloat(partialAmount);
    if (isNaN(amount) || amount <= 0) return;
    const newTotalPaid = reg.totalPaid + amount;
    const newBalance = reg.totalDue - newTotalPaid;
    onUpdateRegistration(reg.id, {
      totalPaid: newTotalPaid, balance: newBalance,
      status: newBalance <= 0 ? 'paid' : reg.status,
    });
    ...
  };
  \<close>
  The argument \<open>partialAmount\<close> is the text of the amount field, as \<open>parseFloat\<close> reads it.
  The result is \<open>None\<close> when the handler returns before it saves anything.
\<close>

definition handleAddPartialPayment ::
  "registration list \<Rightarrow> registration \<Rightarrow> rat option \<Rightarrow> registration list option" where
  "handleAddPartialPayment registrations reg partialAmount =
     (let amount = parseFloat partialAmount
      in if isNaN amount \<or> amount \<le> 0 then None
         else
           let newTotalPaid = totalPaid reg + amount;
               newBalance = totalDue reg - newTotalPaid
           in Some (updateRegistration registrations (reg_id reg)
                [Set_totalPaid newTotalPaid, Set_balance newBalance,
                 Set_status (if newBalance \<le> 0 then Paid else status reg)]))"

subsection \<open>Check-in: QRScannerPage (lines 887-918, 945-977)\<close>

text \<open>
  \<^verbatim>\<open>
  const handleManualSearch = () => {
    const reg = registrations.find(r => r.id === manualId.trim());
    if (!reg) { setError('Ticket ID not found'); return; }
    if (reg.balance > 0) {
      setError('Payment not complete. Balance: ' + reg.balance.toLocaleString()); return;
    }
    setScanResult(reg);
    setError('');
  };
  \<close>
  \<open>Inl\<close>: the error shown, \<^verbatim>\<open>scanResult\<close> is left as it was. \<open>Inr\<close>: the new
  \<^verbatim>\<open>scanResult\<close>.
\<close>

definition handleManualSearch :: "registration list \<Rightarrow> string \<Rightarrow> error + registration" where
  "handleManualSearch registrations manualId =
     (case find (\<lambda>r. reg_id r = trim manualId) registrations of
        None \<Rightarrow> Inl (NotFoundError ''Ticket ID not found'')
      | Some reg \<Rightarrow>
          if balance reg > 0 then Inl (PaymentIncompleteError (balance reg))
          else Inr reg)"

text \<open>
  What the page renders for a \<^verbatim>\<open>scanResult\<close> (lines 945-977):
  \<^verbatim>\<open>{scanResult.checkedIn ? <Checked In Successfully! Welcome ...>
                         : <Valid Ticket ... button Check In Attendee>}\<close>.
  Only the second branch has the button that calls \<^verbatim>\<open>handleCheckIn\<close>.
\<close>

datatype scan_view = AlreadyCheckedIn registration | ValidTicket registration

definition scanView :: "registration \<Rightarrow> scan_view" where
  "scanView scanResult =
     (if checkedIn scanResult = Some True then AlreadyCheckedIn scanResult
      else ValidTicket scanResult)"

text \<open>
  \<^verbatim>\<open>
  const handleCheckIn = () => {
    if (scanResult) {
      onUpdateRegistration(scanResult.id, { checkedIn: true });
      setTimeout(() => { setScanResult(null); setManualId(''); }, 2000);
    }
  };
  \<close>
\<close>

definition handleCheckIn :: "registration list \<Rightarrow> registration option \<Rightarrow> registration list option" where
  "handleCheckIn registrations scanResult =
     (case scanResult of
        None \<Rightarrow> None
      | Some r \<Rightarrow> Some (updateRegistration registrations (reg_id r) [Set_checkedIn (Some True)]))"

subsection \<open>The running application\<close>

text \<open>
  The state that the handlers share: the \<^verbatim>\<open>registrations\<close> of the App component (line
  52), the \<^verbatim>\<open>scanResult\<close> of the scanner page (line 892) and the timers that
  \<^verbatim>\<open>handleApprove\<close> has started and that have not fired yet.

  A timer of \<^verbatim>\<open>handleApprove\<close> calls \<^verbatim>\<open>handleSendETicket(reg)\<close> of the render in which
  Approve was clicked; that function calls the \<^verbatim>\<open>onSendETicket\<close> of the same render,
  which is the \<^verbatim>\<open>sendETicket\<close> that closes over the \<^verbatim>\<open>registrations\<close> of that render
  (lines 83-88, 100-107: no ref, no functional state update). So a timer holds the array
  as it was when Approve was clicked, and the record clicked. All these timers wait 500 ms,
  so they fire in the order they were started.

  \<open>mailed\<close> is not a variable of the source: it collects the messages that the calls of
  \<^verbatim>\<open>sendETicket\<close> return, one for each e-ticket issued.
\<close>

record app =
  registrations :: "registration list"
  scanResult :: "registration option"
  approveTimers :: "(registration list \<times> registration) list"
  mailed :: "eticket_mail list"

definition initial :: app where
  "initial = \<lparr> registrations = [], scanResult = None, approveTimers = [], mailed = [] \<rparr>"

text \<open>
  \<^verbatim>\<open>
  const saveRegistrations = async (newRegistrations: Registration[]) => {
    try {
      await window.storage.set('registrations', JSON.stringify(newRegistrations));
      setRegistrations(newRegistrations);
    } catch (error) { console.error('Failed to save registrations:', error); }
  };
  \<close>
  \<open>stored\<close> tells whether \<^verbatim>\<open>window.storage.set\<close> succeeds; when it throws, the state
  keeps the array it had.
\<close>

definition saveRegistrations :: "bool \<Rightarrow> registration list \<Rightarrow> app \<Rightarrow> app" where
  "saveRegistrations stored newRegistrations s =
     (if stored then s\<lparr>registrations := newRegistrations\<rparr> else s)"

text \<open>
  The \<^verbatim>\<open>disabled\<close> attribute of the button that calls \<^verbatim>\<open>handlePayment\<close> (line 402):
  \<^verbatim>\<open>!paymentMethod || (paymentMethod === 'cash' && !staffPin) ||
  (paymentMethod === 'transfer' && (!transactionRef || !receiptImage))\<close>.
\<close>

definition payDisabled :: "payment_input \<Rightarrow> bool" where
  "payDisabled p \<longleftrightarrow>
     chosenMethod p = None
     \<or> (chosenMethod p = Some Cash \<and> staffPin p = [])
     \<or> (chosenMethod p = Some Transfer
        \<and> (enteredRef p = [] \<or> uploadedReceipt p = None \<or> uploadedReceipt p = Some []))"

text \<open>
  What the user and the timers do. A row of the dashboard is named by its index in
  \<^verbatim>\<open>registrations\<close>. An event that the page does not offer (the button is not rendered or
  is disabled) leaves the state as it is. Every event comes with the outcome of the
  write to the storage, should the handler get that far.

  \<^item> \<open>Register\<close>: the payment step, reached once \<^verbatim>\<open>handleSubmit\<close> has accepted the form;
    the button calls \<^verbatim>\<open>handlePayment\<close>, which calls \<^verbatim>\<open>addRegistration\<close>. Nothing
    compares the new id, the reading of the clock, with the ids stored.
  \<^item> \<open>Approve\<close>: the button of line 794, rendered when
    \<^verbatim>\<open>reg.status === 'pending' && reg.paymentMethod === 'transfer'\<close>.
  \<^item> \<open>ApproveTimer\<close>: the oldest timer of \<^verbatim>\<open>handleApprove\<close> fires.
  \<^item> \<open>AddPayment\<close>: the button of line 799, rendered when \<^verbatim>\<open>reg.balance > 0\<close>, and the
    dialog it opens, whose button calls \<^verbatim>\<open>handleAddPartialPayment\<close> with the text of
    the amount field.
  \<^item> \<open>SendTicket\<close>: the button of line 780, rendered when \<^verbatim>\<open>reg.balance === 0\<close> and
    \<^verbatim>\<open>reg.emailSent\<close> is not true.
  \<^item> \<open>Search\<close>: \<^verbatim>\<open>handleManualSearch\<close> with the text typed.
  \<^item> \<open>CheckIn\<close>: the button of the valid-ticket view, which calls \<^verbatim>\<open>handleCheckIn\<close>.
  \<^item> \<open>ResetScanner\<close>: the timer of \<^verbatim>\<open>handleCheckIn\<close> fires, or the page is left.
  \<^item> \<open>Reload\<close>: the application is opened again; \<^verbatim>\<open>loadRegistrations\<close> (lines 58-67)
    reads back the array last written, which is the array of the state, and the timers
    and the state of the pages are gone.

  Which page is on the screen is not part of the state: any event may follow any other.
  That allows more runs than the pages do, so what holds of every run here holds of every
  run of the application. Between two events the state has been updated and rendered:
  the write of \<^verbatim>\<open>saveRegistrations\<close> is awaited before \<^verbatim>\<open>setRegistrations\<close>, and with
  the storage of lines 15-25 it is done before the next event is handled.
\<close>

datatype event =
    Register payment_input
  | Approve nat
  | ApproveTimer
  | AddPayment nat "rat option"
  | SendTicket nat
  | Search string
  | CheckIn
  | ResetScanner
  | Reload

fun step :: "app \<Rightarrow> event \<times> bool \<Rightarrow> app" where
  "step s (Register p, stored) =
     (if handleSubmit (formData p) \<noteq> None \<or> payDisabled p then s
      else case handlePayment p of
             Inl e \<Rightarrow> s
           | Inr registration \<Rightarrow>
               saveRegistrations stored (addRegistration (registrations s) registration) s)"
| "step s (Approve k, stored) =
     (if k < length (registrations s) \<and> status (registrations s ! k) = Pending
         \<and> paymentMethod (registrations s ! k) = Some Transfer
      then (saveRegistrations stored
              (handleApprove (registrations s) (registrations s ! k)) s)
           \<lparr>approveTimers := approveTimers s @ [(registrations s, registrations s ! k)]\<rparr>
      else s)"
| "step s (ApproveTimer, stored) =
     (case approveTimers s of
        [] \<Rightarrow> s
      | (captured, reg) # rest \<Rightarrow>
          (saveRegistrations stored (fst (sendETicket captured reg)) s)
          \<lparr>approveTimers := rest, mailed := mailed s @ [snd (sendETicket captured reg)]\<rparr>)"
| "step s (AddPayment k amount, stored) =
     (if k < length (registrations s) \<and> balance (registrations s ! k) > 0
      then (case handleAddPartialPayment (registrations s) (registrations s ! k) amount of
              None \<Rightarrow> s
            | Some updated \<Rightarrow> saveRegistrations stored updated s)
      else s)"
| "step s (SendTicket k, stored) =
     (if k < length (registrations s) \<and> balance (registrations s ! k) = 0
         \<and> emailSent (registrations s ! k) \<noteq> Some True
      then (saveRegistrations stored
              (fst (sendETicket (registrations s) (registrations s ! k))) s)
           \<lparr>mailed := mailed s @ [snd (sendETicket (registrations s) (registrations s ! k))]\<rparr>
      else s)"
| "step s (Search manualId, stored) =
     (case handleManualSearch (registrations s) manualId of
        Inl e \<Rightarrow> s
      | Inr reg \<Rightarrow> s\<lparr>scanResult := Some reg\<rparr>)"
| "step s (CheckIn, stored) =
     (case scanResult s of
        None \<Rightarrow> s
      | Some r \<Rightarrow>
          (case scanView r of
             AlreadyCheckedIn _ \<Rightarrow> s
           | ValidTicket _ \<Rightarrow>
               (case handleCheckIn (registrations s) (scanResult s) of
                  None \<Rightarrow> s
                | Some updated \<Rightarrow> saveRegistrations stored updated s)))"
| "step s (ResetScanner, stored) = s\<lparr>scanResult := None\<rparr>"
| "step s (Reload, stored) = s\<lparr>scanResult := None, approveTimers := []\<rparr>"

definition run :: "(event \<times> bool) list \<Rightarrow> app" where
  "run evs = foldl step initial evs"

text \<open>The composition that the specification calls \<open>checkIn(id)\<close>: look the ticket up
  and, where the page offers the button, press it. The result is the array saved, if any,
  and what the user is shown.\<close>

datatype checkin_result = Failed error | Already registration | CheckedIn registration

definition checkIn :: "registration list \<Rightarrow> string \<Rightarrow> registration list option \<times> checkin_result" where
  "checkIn regs manualId =
     (case handleManualSearch regs manualId of
        Inl e \<Rightarrow> (None, Failed e)
      | Inr reg \<Rightarrow>
          (case scanView reg of
             AlreadyCheckedIn r \<Rightarrow> (None, Already r)
           | ValidTicket r \<Rightarrow> (handleCheckIn regs (Some r), CheckedIn r)))"

subsection \<open>The two ledger invariants\<close>












subsection \<open>Example data\<close>

definition guestForm :: form_data where
  "guestForm =
     \<lparr> form_name = ''Ada Obi'', form_phone = ''+2348000000000'',
       form_email = ''ada@example.com'', form_ticketType = Guest,
       form_guestName = ''Chidi Obi'' \<rparr>"

definition soloForm :: form_data where
  "soloForm =
     \<lparr> form_name = ''Ben Ade'', form_phone = ''+2348000000001'',
       form_email = ''ben@example.com'', form_ticketType = Solo, form_guestName = [] \<rparr>"

definition transferInput :: payment_input where
  "transferInput =
     \<lparr> formData = guestForm, chosenMethod = Some Transfer, staffPin = [],
       enteredRef = ''TRF1'', uploadedReceipt = Some ''data:image/png;base64,AAAA'',
       now = ''1700000000000'', nowISO = ''2023-11-14T22:13:20.000Z'' \<rparr>"

definition cashInput :: payment_input where
  "cashInput =
     \<lparr> formData = soloForm, chosenMethod = Some Cash, staffPin = ''1234'',
       enteredRef = [], uploadedReceipt = None,
       now = ''1700000005000'', nowISO = ''2023-11-14T22:13:25.000Z'' \<rparr>"

text \<open>Ada registers with a guest and pays by transfer; Ben registers alone and pays cash.\<close>

definition ada :: registration where
  "ada = newRegistration transferInput"

definition ben :: registration where
  "ben = newRegistration cashInput"

text \<open>
  A day at the desk: both register, Ada pays 1000 of her 3000, her transfer is approved
  and the timer of the approval fires, Ben is sent his ticket, is looked up at the door
  and checked in.
\<close>

definition exampleDay :: "(event \<times> bool) list" where
  "exampleDay =
     [(Register transferInput, True), (Register cashInput, True),
      (AddPayment 0 (Some 1000), True), (Approve 0, True), (ApproveTimer, True),
      (SendTicket 1, True), (Search ''1700000005000'', True), (CheckIn, True)]"

text \<open>The two records as that day leaves them.\<close>

definition adaAfter :: registration where
  "adaAfter =
     ada\<lparr>totalPaid := Num 1000, balance := Num 2000,
         ticketQR := Some (generateQRCode ada), emailSent := Some True\<rparr>"

definition benAfter :: registration where
  "benAfter =
     ben\<lparr>ticketQR := Some (generateQRCode ben), emailSent := Some True,
         checkedIn := Some True\<rparr>"

text \<open>Two inputs that the payment step refuses, a reference that is a single space and a
  wrong PIN; and a ticket id typed at the door with a space in front.\<close>

definition blankRefInput :: payment_input where
  "blankRefInput = transferInput\<lparr>enteredRef := '' ''\<rparr>"

definition wrongPinInput :: payment_input where
  "wrongPinInput = cashInput\<lparr>staffPin := ''0000''\<rparr>"

definition paddedId :: string where
  "paddedId = '' 1700000005000''"

text \<open>
  Four short runs. In the first Ada registers, her transfer is approved and the timer of
  the approval fires; in the second the same approval is then clicked once more. In the
  third Ben registers, is looked up and checked in. In the fourth Ada and Ben register,
  Ada's transfer is approved and, before the timer of the approval fires, Ben is looked up
  and checked in.
\<close>

definition approvedOnce :: "(event \<times> bool) list" where
  "approvedOnce = [(Register transferInput, True), (Approve 0, True), (ApproveTimer, True)]"

definition approvedTwice :: "(event \<times> bool) list" where
  "approvedTwice = approvedOnce @ [(Approve 0, True), (ApproveTimer, True)]"

definition checkedInOnce :: "(event \<times> bool) list" where
  "checkedInOnce =
     [(Register cashInput, True), (Search ''1700000005000'', True), (CheckIn, True)]"

definition checkInBeforeTimer :: "(event \<times> bool) list" where
  "checkInBeforeTimer =
     [(Register transferInput, True), (Register cashInput, True), (Approve 0, True),
      (Search ''1700000005000'', True), (CheckIn, True)]"

text \<open>Ada after she has paid 2500 of her 3000.\<close>

definition adaOwing :: registration where
  "adaOwing = ada\<lparr>totalPaid := Num 2500, balance := Num 500\<rparr>"

text \<open>
  Ben registers a second time, pays by transfer, and the clock reads what it read for Ada.
  And two runs in which the ledger ends unbalanced: Ada pays in \<open>10 ^ 17\<close>; Ben's second
  registration and Ada's share an id and his transfer is approved.
\<close>

definition sameStampInput :: payment_input where
  "sameStampInput =
     \<lparr> formData = soloForm, chosenMethod = Some Transfer, staffPin = [],
       enteredRef = ''TRF2'', uploadedReceipt = Some ''data:image/png;base64,BBBB'',
       now = ''1700000000000'', nowISO = ''2023-11-14T22:13:20.000Z'' \<rparr>"

definition benByTransfer :: registration where
  "benByTransfer = newRegistration sameStampInput"



text \<open>
  The state in which Ada and Ben have just registered, and a run in which Ben's second
  registration is paid off by 0.2 and then 1999.8.
\<close>

definition bothRegistered :: app where
  "bothRegistered = initial\<lparr>registrations := [ada, ben]\<rparr>"

definition paidInTwoParts :: "(event \<times> bool) list" where
  "paidInTwoParts =
     [(Register sameStampInput, True), (AddPayment 0 (Some (1 / 5)), True),
      (AddPayment 0 (Some (9999 / 5)), True)]"

section \<open>Properties\<close>

subsection \<open>Numbers\<close>






lemma le_zero_not_less: "x \<le> 0 \<Longrightarrow> \<not> 0 < (x :: js_number)"
  by (cases x) (auto simp: less_eq_js_number_def zero_js_number_def)

lemma zero_le_zero: "(0 :: js_number) \<le> 0"
  by (simp add: less_eq_js_number_def zero_js_number_def)



subsection \<open>The store\<close>

lemma length_updateRegistration [simp]:
  "length (updateRegistration regs i ups) = length regs"
  by (simp add: updateRegistration_def)

lemma nth_updateRegistration:
  "k < length regs \<Longrightarrow>
   updateRegistration regs i ups ! k =
     (if reg_id (regs ! k) = i then spread (regs ! k) ups else regs ! k)"
  by (simp add: updateRegistration_def)





lemma handlePayment_Inr: "handlePayment p = Inr r \<Longrightarrow> r = newRegistration p"
  by (auto simp: handlePayment_def split: if_splits)

subsection \<open>The status invariant\<close>


















subsection \<open>The ledger equation\<close>



















subsection \<open>The e-ticket\<close>

lemma ticketQR_sendETicket:
  "k < length regs \<Longrightarrow> reg_id (regs ! k) = reg_id reg \<Longrightarrow>
   ticketQR (fst (sendETicket regs reg) ! k) = Some (generateQRCode reg)
   \<and> emailSent (fst (sendETicket regs reg) ! k) = Some True"
  by (simp add: sendETicket_def Let_def nth_updateRegistration spread_def)

text \<open>
  C10. The e-ticket is a function of the id, the name, the ticket type and the guest name:
  for two records that agree on these four, \<^verbatim>\<open>generateQRCode\<close> gives the same address,
  \<^verbatim>\<open>sendETicket\<close> attaches that same address as \<open>ticketQR\<close> to the stored record with
  the id, whatever the arrays and the other fields are, and returns it in its message.
\<close>

theorem eticket_depends_on_four_fields:
  assumes "reg_id a = reg_id b" and "name a = name b"
    and "ticketType a = ticketType b" and "guestName a = guestName b"
  shows "generateQRCode a = generateQRCode b
    \<and> (\<forall>k < length regs. reg_id (regs ! k) = reg_id a \<longrightarrow>
          ticketQR (fst (sendETicket regs a) ! k) = Some (generateQRCode a))
    \<and> (\<forall>k < length regs'. reg_id (regs' ! k) = reg_id b \<longrightarrow>
          ticketQR (fst (sendETicket regs' b) ! k) = Some (generateQRCode a))
    \<and> mail_qrCode (snd (sendETicket regs a)) = mail_qrCode (snd (sendETicket regs' b))"
proof -
  have q: "generateQRCode a = generateQRCode b"
    using assms by (simp add: generateQRCode_def qrData_def)
  moreover have "mail_qrCode (snd (sendETicket regs a)) = mail_qrCode (snd (sendETicket regs' b))"
    using q by (simp add: sendETicket_def Let_def)
  ultimately show ?thesis
    by (simp add: ticketQR_sendETicket)
qed

theorem eticket_depends_on_four_fields_witness:
  "reg_id ada = reg_id adaAfter \<and> name ada = name adaAfter
   \<and> ticketType ada = ticketType adaAfter \<and> guestName ada = guestName adaAfter
   \<and> balance ada \<noteq> balance adaAfter \<and> emailSent ada \<noteq> emailSent adaAfter
   \<and> generateQRCode ada = generateQRCode adaAfter
   \<and> ticketQR (fst (sendETicket [ada, ben] ada) ! 0) = Some (generateQRCode ada)
   \<and> ticketQR (fst (sendETicket [adaAfter, benAfter] adaAfter) ! 0) = Some (generateQRCode ada)
   \<and> generateQRCode ada =
       ''https://api.qrserver.com/v1/create-qr-code/?size=300x300&data=%7B%22id%22%3A%221700000000000%22%2C%22name%22%3A%22Ada%20Obi%22%2C%22ticketType%22%3A%22guest%22%2C%22guestName%22%3A%22Chidi%20Obi%22%7D''"
proof -
  have h: "reg_id ada = reg_id adaAfter" "name ada = name adaAfter"
    "ticketType ada = ticketType adaAfter" "guestName ada = guestName adaAfter"
    by (simp_all add: adaAfter_def)
  have d: "balance ada \<noteq> balance adaAfter" "emailSent ada \<noteq> emailSent adaAfter"
    by (simp_all add: adaAfter_def ada_def newRegistration_def transferInput_def guestForm_def
          ticketPrice_def)
  have u: "generateQRCode ada =
       ''https://api.qrserver.com/v1/create-qr-code/?size=300x300&data=%7B%22id%22%3A%221700000000000%22%2C%22name%22%3A%22Ada%20Obi%22%2C%22ticketType%22%3A%22guest%22%2C%22guestName%22%3A%22Chidi%20Obi%22%7D''"
    by code_simp
  from eticket_depends_on_four_fields[OF h, of "[ada, ben]" "[adaAfter, benAfter]"]
  have "generateQRCode ada = generateQRCode adaAfter"
    and "ticketQR (fst (sendETicket [ada, ben] ada) ! 0) = Some (generateQRCode ada)"
    and "ticketQR (fst (sendETicket [adaAfter, benAfter] adaAfter) ! 0) = Some (generateQRCode ada)"
    by simp_all
  with h d u show ?thesis
    by simp
qed

subsection \<open>Partial payments\<close>

text \<open>
  C4. \<^verbatim>\<open>handleAddPartialPayment\<close> for the record \<open>reg\<close> of row \<open>k\<close>, in a state whose array
  is \<open>regs\<close>. When the amount read is \<^verbatim>\<open>NaN\<close>, zero or negative, the handler returns
  before it saves and the event leaves the state as it is. Otherwise it saves an array of
  the same length in which row \<open>k\<close> is \<open>reg\<close> with \<open>totalPaid\<close> set to
  \<^verbatim>\<open>reg.totalPaid + amount\<close>, \<open>balance\<close> set to \<^verbatim>\<open>reg.totalDue - newTotalPaid\<close> (sum and
  difference as JavaScript computes them, nothing clamped) and \<open>status\<close> set to \<open>Paid\<close>
  when that balance is at most zero and left as it was otherwise, and every record with
  another id is untouched; so a pending record becomes paid exactly when its new balance is
  at most zero and stays pending otherwise. Where the page offers the payment (the balance
  is positive), that array is the array of the next state when the write succeeds, and
  the state is unchanged when the write fails.
\<close>

theorem handleAddPartialPayment_contract:
  assumes "k < length regs" and "reg = regs ! k" and "registrations s = regs"
  shows "(isNaN (parseFloat partialAmount) \<or> parseFloat partialAmount \<le> 0 \<longrightarrow>
            handleAddPartialPayment regs reg partialAmount = None
            \<and> step s (AddPayment k partialAmount, stored) = s)
    \<and> (\<not> isNaN (parseFloat partialAmount) \<and> \<not> parseFloat partialAmount \<le> 0 \<longrightarrow>
          (\<exists>updated. handleAddPartialPayment regs reg partialAmount = Some updated
             \<and> length updated = length regs
             \<and> updated ! k =
                 reg\<lparr>totalPaid := totalPaid reg + parseFloat partialAmount,
                     balance := totalDue reg - (totalPaid reg + parseFloat partialAmount),
                     status := (if totalDue reg - (totalPaid reg + parseFloat partialAmount) \<le> 0
                                then Paid else status reg)\<rparr>
             \<and> totalPaid (updated ! k) = totalPaid reg + parseFloat partialAmount
             \<and> balance (updated ! k) = totalDue reg - totalPaid (updated ! k)
             \<and> (\<forall>j < length regs. reg_id (regs ! j) \<noteq> reg_id reg \<longrightarrow> updated ! j = regs ! j)
             \<and> (status reg = Pending \<longrightarrow>
                   (status (updated ! k) = Paid \<longleftrightarrow> balance (updated ! k) \<le> 0)
                 \<and> (status (updated ! k) = Pending \<longleftrightarrow> \<not> balance (updated ! k) \<le> 0))
             \<and> (0 < balance reg \<longrightarrow>
                   registrations (step s (AddPayment k partialAmount, True)) = updated
                 \<and> step s (AddPayment k partialAmount, False) = s)))"
proof -
  define amount where "amount = parseFloat partialAmount"
  define updated where
    "updated = updateRegistration regs (reg_id reg)
       [Set_totalPaid (totalPaid reg + amount),
        Set_balance (totalDue reg - (totalPaid reg + amount)),
        Set_status (if totalDue reg - (totalPaid reg + amount) \<le> 0 then Paid else status reg)]"
  have rejected: "handleAddPartialPayment regs reg partialAmount = None
      \<and> step s (AddPayment k partialAmount, stored) = s"
    if "isNaN amount \<or> amount \<le> 0"
    using that assms by (auto simp: handleAddPartialPayment_def Let_def amount_def)
  have accepted: "handleAddPartialPayment regs reg partialAmount = Some updated"
    if "\<not> isNaN amount" and "\<not> amount \<le> 0"
    using that by (simp add: handleAddPartialPayment_def Let_def amount_def updated_def)
  have row: "updated ! k =
      reg\<lparr>totalPaid := totalPaid reg + amount,
          balance := totalDue reg - (totalPaid reg + amount),
          status := (if totalDue reg - (totalPaid reg + amount) \<le> 0 then Paid
                     else status reg)\<rparr>"
    using assms(1,2) by (simp add: updated_def nth_updateRegistration spread_def)
  have others: "\<forall>j < length regs. reg_id (regs ! j) \<noteq> reg_id reg \<longrightarrow> updated ! j = regs ! j"
    by (simp add: updated_def nth_updateRegistration)
  have saved: "registrations (step s (AddPayment k partialAmount, True)) = updated
      \<and> step s (AddPayment k partialAmount, False) = s"
    if "\<not> isNaN amount" and "\<not> amount \<le> 0" and "0 < balance reg"
    using that accepted assms by (simp add: saveRegistrations_def)
  have "\<exists>u. handleAddPartialPayment regs reg partialAmount = Some u
             \<and> length u = length regs
             \<and> u ! k =
                 reg\<lparr>totalPaid := totalPaid reg + amount,
                     balance := totalDue reg - (totalPaid reg + amount),
                     status := (if totalDue reg - (totalPaid reg + amount) \<le> 0
                                then Paid else status reg)\<rparr>
             \<and> totalPaid (u ! k) = totalPaid reg + amount
             \<and> balance (u ! k) = totalDue reg - totalPaid (u ! k)
             \<and> (\<forall>j < length regs. reg_id (regs ! j) \<noteq> reg_id reg \<longrightarrow> u ! j = regs ! j)
             \<and> (status reg = Pending \<longrightarrow>
                   (status (u ! k) = Paid \<longleftrightarrow> balance (u ! k) \<le> 0)
                 \<and> (status (u ! k) = Pending \<longleftrightarrow> \<not> balance (u ! k) \<le> 0))
             \<and> (0 < balance reg \<longrightarrow>
                   registrations (step s (AddPayment k partialAmount, True)) = u
                 \<and> step s (AddPayment k partialAmount, False) = s)"
    if "\<not> isNaN amount" and "\<not> amount \<le> 0"
  proof (intro exI[of _ updated] conjI)
    show "handleAddPartialPayment regs reg partialAmount = Some updated"
      using that by (rule accepted)
    show "length updated = length regs"
      by (simp add: updated_def)
    show "updated ! k =
      reg\<lparr>totalPaid := totalPaid reg + amount,
          balance := totalDue reg - (totalPaid reg + amount),
          status := (if totalDue reg - (totalPaid reg + amount) \<le> 0 then Paid
                     else status reg)\<rparr>"
      by (rule row)
    show "totalPaid (updated ! k) = totalPaid reg + amount"
      by (simp add: row)
    show "balance (updated ! k) = totalDue reg - totalPaid (updated ! k)"
      by (simp add: row)
    show "\<forall>j < length regs. reg_id (regs ! j) \<noteq> reg_id reg \<longrightarrow> updated ! j = regs ! j"
      by (rule others)
    show "status reg = Pending \<longrightarrow>
        (status (updated ! k) = Paid \<longleftrightarrow> balance (updated ! k) \<le> 0)
        \<and> (status (updated ! k) = Pending \<longleftrightarrow> \<not> balance (updated ! k) \<le> 0)"
      by (simp add: row)
    show "0 < balance reg \<longrightarrow>
        registrations (step s (AddPayment k partialAmount, True)) = updated
        \<and> step s (AddPayment k partialAmount, False) = s"
      using that saved by blast
  qed
  with rejected show ?thesis
    unfolding amount_def by blast
qed

theorem handleAddPartialPayment_contract_witness:
  "(0::nat) < length [ada, ben] \<and> ada = [ada, ben] ! 0
   \<and> registrations bothRegistered = [ada, ben]
   \<and> totalPaid ada = 0 \<and> totalDue ada = Num 3000 \<and> balance ada = Num 3000
   \<and> status ada = Pending
   \<and> handleAddPartialPayment [ada, ben] ada None = None
   \<and> handleAddPartialPayment [ada, ben] ada (Some 0) = None
   \<and> handleAddPartialPayment [ada, ben] ada (Some (- 5)) = None
   \<and> step bothRegistered (AddPayment 0 (Some (- 5)), True) = bothRegistered
   \<and> registrations (step bothRegistered (AddPayment 0 (Some 1000), True))
       = [ada\<lparr>totalPaid := Num 1000, balance := Num 2000, status := Pending\<rparr>, ben]
   \<and> step bothRegistered (AddPayment 0 (Some 1000), False) = bothRegistered
   \<and> handleAddPartialPayment [ada\<lparr>totalPaid := Num 1000, balance := Num 2000, status := Pending\<rparr>, ben]
        (ada\<lparr>totalPaid := Num 1000, balance := Num 2000, status := Pending\<rparr>) (Some 2000)
       = Some [ada\<lparr>totalPaid := Num 3000, balance := Num 0, status := Paid\<rparr>, ben]
   \<and> handleAddPartialPayment [ada, ben] ada (Some 3500)
       = Some [ada\<lparr>totalPaid := Num 3500, balance := Num (- 500), status := Paid\<rparr>, ben]
   \<and> handleAddPartialPayment [ada, ben] ada (Some (1 / 10))
       = Some [ada\<lparr>totalPaid := Num (3602879701896397 / 36028797018963968),
                   balance := Num (6596849864330445 / 2199023255552),
                   status := Pending\<rparr>, ben]
   \<and> map (\<lambda>r. (totalPaid r, balance r, status r)) (registrations (run paidInTwoParts))
       = [(Num 2000, Num 0, Paid)]"
proof -
  have k: "(0::nat) < length [ada, ben]" and r: "ada = [ada, ben] ! 0"
    and s: "registrations bothRegistered = [ada, ben]"
    by (simp_all add: bothRegistered_def)
  have f: "totalPaid ada = 0" "totalDue ada = Num 3000" "balance ada = Num 3000"
    "status ada = Pending"
    by (simp_all add: ada_def newRegistration_def transferInput_def guestForm_def ticketPrice_def)
  have gate: "0 < balance ada"
    using f by (simp add: zero_js_number_def)
  have parsed: "parseFloat None = NaN" "parseFloat (Some 0) = Num 0"
    "parseFloat (Some (- 5)) = Num (- 5)" "parseFloat (Some 1000) = Num 1000"
    by code_simp+
  note c = handleAddPartialPayment_contract[OF k r s]
  have "isNaN (parseFloat None)"
    using parsed by (simp add: isNaN_def)
  with c[of None True] have n: "handleAddPartialPayment [ada, ben] ada None = None"
    by blast
  have "parseFloat (Some 0) \<le> 0"
    using parsed by (simp add: less_eq_js_number_def zero_js_number_def)
  with c[of "Some 0" True] have z: "handleAddPartialPayment [ada, ben] ada (Some 0) = None"
    by blast
  have "parseFloat (Some (- 5)) \<le> 0"
    using parsed by (simp add: less_eq_js_number_def zero_js_number_def)
  with c[of "Some (- 5)" True]
  have m: "handleAddPartialPayment [ada, ben] ada (Some (- 5)) = None"
    "step bothRegistered (AddPayment 0 (Some (- 5)), True) = bothRegistered"
    by blast+
  have p1: "handleAddPartialPayment [ada, ben] ada (Some 1000)
       = Some [ada\<lparr>totalPaid := Num 1000, balance := Num 2000, status := Pending\<rparr>, ben]"
    by code_simp
  have accepted: "\<not> isNaN (parseFloat (Some 1000)) \<and> \<not> parseFloat (Some 1000) \<le> 0"
    using parsed by (simp add: isNaN_def less_eq_js_number_def zero_js_number_def)
  with c[of "Some 1000" True] obtain updated
    where u: "handleAddPartialPayment [ada, ben] ada (Some 1000) = Some updated"
      "0 < balance ada \<longrightarrow>
         registrations (step bothRegistered (AddPayment 0 (Some 1000), True)) = updated
         \<and> step bothRegistered (AddPayment 0 (Some 1000), False) = bothRegistered"
    by blast
  with gate p1
  have st: "registrations (step bothRegistered (AddPayment 0 (Some 1000), True))
       = [ada\<lparr>totalPaid := Num 1000, balance := Num 2000, status := Pending\<rparr>, ben]"
    "step bothRegistered (AddPayment 0 (Some 1000), False) = bothRegistered"
    by simp_all
  have p2: "handleAddPartialPayment [ada\<lparr>totalPaid := Num 1000, balance := Num 2000, status := Pending\<rparr>, ben]
        (ada\<lparr>totalPaid := Num 1000, balance := Num 2000, status := Pending\<rparr>) (Some 2000)
       = Some [ada\<lparr>totalPaid := Num 3000, balance := Num 0, status := Paid\<rparr>, ben]"
    by code_simp
  have p3: "handleAddPartialPayment [ada, ben] ada (Some 3500)
       = Some [ada\<lparr>totalPaid := Num 3500, balance := Num (- 500), status := Paid\<rparr>, ben]"
    by code_simp
  have p4: "handleAddPartialPayment [ada, ben] ada (Some (1 / 10))
       = Some [ada\<lparr>totalPaid := Num (3602879701896397 / 36028797018963968),
                   balance := Num (6596849864330445 / 2199023255552),
                   status := Pending\<rparr>, ben]"
    by code_simp
  have p5: "map (\<lambda>r. (totalPaid r, balance r, status r)) (registrations (run paidInTwoParts))
       = [(Num 2000, Num 0, Paid)]"
    by code_simp
  from k r s f n z m st p2 p3 p4 p5 show ?thesis
    by simp
qed

subsection \<open>Registration\<close>

lemma step_Register_refused: "handlePayment p = Inl e \<Longrightarrow> step s (Register p, stored) = s"
  by simp

text \<open>
  C3, as stated, fails: a transfer whose reference is a single space has a non-empty
  reference and a receipt, the button is enabled, and \<^verbatim>\<open>handlePayment\<close> refuses it,
  because it tests \<^verbatim>\<open>transactionRef.trim()\<close>.
\<close>

theorem blank_transactionRef_refused:
  "chosenMethod blankRefInput = Some Transfer
   \<and> enteredRef blankRefInput \<noteq> []
   \<and> uploadedReceipt blankRefInput = Some ''data:image/png;base64,AAAA''
   \<and> handleSubmit (formData blankRefInput) = None
   \<and> \<not> payDisabled blankRefInput
   \<and> handlePayment blankRefInput = Inl (ValidationError ''Please enter transaction reference'')"
  by (simp add: blankRefInput_def transferInput_def guestForm_def handleSubmit_def
        payDisabled_def handlePayment_def trim_def leading_def whiteSpace_def)

text \<open>
  C3, amended. Cash with the PIN \<^verbatim>\<open>1234\<close> gives a record with \<open>totalPaid = totalDue\<close>
  (2000 for solo, 3000 for guest), balance 0 and status \<open>Paid\<close>. A transfer whose
  reference is not empty after trimming white space, with a receipt that is not empty,
  gives a record with \<open>totalPaid = 0\<close>, \<open>balance = totalDue\<close> and status \<open>Pending\<close>. Cash
  with another PIN is refused with an authorization error; a transfer whose trimmed
  reference is empty or whose receipt is missing is refused with a validation error. A
  refused payment leaves the state as it is; an accepted one, when the write succeeds,
  appends the record.
\<close>

theorem handlePayment_contract:
  "(chosenMethod p = Some Cash \<and> staffPin p = ''1234'' \<longrightarrow>
      (\<exists>r. handlePayment p = Inr r
         \<and> totalDue r = (if form_ticketType (formData p) = Solo then Num 2000 else Num 3000)
         \<and> totalPaid r = totalDue r \<and> balance r = 0 \<and> status r = Paid))
   \<and> (chosenMethod p = Some Transfer \<and> trim (enteredRef p) \<noteq> []
       \<and> (\<exists>image. uploadedReceipt p = Some image \<and> image \<noteq> []) \<longrightarrow>
      (\<exists>r. handlePayment p = Inr r
         \<and> totalDue r = (if form_ticketType (formData p) = Solo then Num 2000 else Num 3000)
         \<and> totalPaid r = 0 \<and> balance r = totalDue r \<and> status r = Pending))
   \<and> (chosenMethod p = Some Cash \<and> staffPin p \<noteq> ''1234'' \<longrightarrow>
      handlePayment p = Inl (AuthorizationError ''Invalid Staff PIN''))
   \<and> (chosenMethod p = Some Transfer
       \<and> (trim (enteredRef p) = [] \<or> uploadedReceipt p = None \<or> uploadedReceipt p = Some []) \<longrightarrow>
      (\<exists>message. handlePayment p = Inl (ValidationError message)))
   \<and> (\<forall>e. handlePayment p = Inl e \<longrightarrow> step s (Register p, stored) = s)
   \<and> (\<forall>r. handlePayment p = Inr r \<and> handleSubmit (formData p) = None \<and> \<not> payDisabled p \<longrightarrow>
        registrations (step s (Register p, True)) = registrations s @ [r])"
proof -
  have cash: "\<exists>r. handlePayment p = Inr r
         \<and> totalDue r = (if form_ticketType (formData p) = Solo then Num 2000 else Num 3000)
         \<and> totalPaid r = totalDue r \<and> balance r = 0 \<and> status r = Paid"
    if "chosenMethod p = Some Cash" and "staffPin p = ''1234''"
    using that by (simp add: handlePayment_def newRegistration_def ticketPrice_def)
  have transfer: "\<exists>r. handlePayment p = Inr r
         \<and> totalDue r = (if form_ticketType (formData p) = Solo then Num 2000 else Num 3000)
         \<and> totalPaid r = 0 \<and> balance r = totalDue r \<and> status r = Pending"
    if "chosenMethod p = Some Transfer" and "trim (enteredRef p) \<noteq> []"
      and "\<exists>image. uploadedReceipt p = Some image \<and> image \<noteq> []"
    using that by (auto simp: handlePayment_def newRegistration_def ticketPrice_def)
  have pin: "handlePayment p = Inl (AuthorizationError ''Invalid Staff PIN'')"
    if "chosenMethod p = Some Cash" and "staffPin p \<noteq> ''1234''"
    using that by (simp add: handlePayment_def)
  have missing: "\<exists>message. handlePayment p = Inl (ValidationError message)"
    if "chosenMethod p = Some Transfer"
      and "trim (enteredRef p) = [] \<or> uploadedReceipt p = None \<or> uploadedReceipt p = Some []"
    using that by (auto simp: handlePayment_def)
  have added: "registrations (step s (Register p, True)) = registrations s @ [r]"
    if "handlePayment p = Inr r" and "handleSubmit (formData p) = None" and "\<not> payDisabled p"
    for r
    using that by (simp add: saveRegistrations_def addRegistration_def)
  from cash transfer pin missing added show ?thesis
    by (simp add: step_Register_refused)
qed

theorem handlePayment_contract_witness:
  "chosenMethod cashInput = Some Cash \<and> staffPin cashInput = ''1234''
   \<and> handlePayment cashInput = Inr ben
   \<and> totalDue ben = Num 2000 \<and> totalPaid ben = Num 2000 \<and> balance ben = 0 \<and> status ben = Paid
   \<and> chosenMethod transferInput = Some Transfer \<and> trim (enteredRef transferInput) \<noteq> []
   \<and> uploadedReceipt transferInput = Some ''data:image/png;base64,AAAA''
   \<and> handlePayment transferInput = Inr ada
   \<and> totalDue ada = Num 3000 \<and> totalPaid ada = 0 \<and> balance ada = Num 3000 \<and> status ada = Pending
   \<and> chosenMethod wrongPinInput = Some Cash \<and> staffPin wrongPinInput \<noteq> ''1234''
   \<and> handlePayment wrongPinInput = Inl (AuthorizationError ''Invalid Staff PIN'')
   \<and> step initial (Register wrongPinInput, True) = initial
   \<and> chosenMethod blankRefInput = Some Transfer \<and> trim (enteredRef blankRefInput) = []
   \<and> (\<exists>message. handlePayment blankRefInput = Inl (ValidationError message))
   \<and> step initial (Register blankRefInput, True) = initial
   \<and> registrations (step initial (Register transferInput, True)) = [ada]"
proof -
  have c: "chosenMethod cashInput = Some Cash" "staffPin cashInput = ''1234''"
    by (simp_all add: cashInput_def)
  have t: "chosenMethod transferInput = Some Transfer" "trim (enteredRef transferInput) \<noteq> []"
    "uploadedReceipt transferInput = Some ''data:image/png;base64,AAAA''"
    by (simp_all add: transferInput_def trim_def leading_def whiteSpace_def)
  have w: "chosenMethod wrongPinInput = Some Cash" "staffPin wrongPinInput \<noteq> ''1234''"
    by (simp_all add: wrongPinInput_def cashInput_def)
  have b: "chosenMethod blankRefInput = Some Transfer" "trim (enteredRef blankRefInput) = []"
    by (simp_all add: blankRefInput_def transferInput_def trim_def leading_def whiteSpace_def)
  have g: "handleSubmit (formData transferInput) = None" "\<not> payDisabled transferInput"
    by (simp_all add: transferInput_def guestForm_def handleSubmit_def payDisabled_def)
  have fb: "form_ticketType (formData cashInput) = Solo"
    and fa: "form_ticketType (formData transferInput) = Guest"
    by (simp_all add: cashInput_def soloForm_def transferInput_def guestForm_def)
  from handlePayment_contract[of cashInput initial True] c fb
  obtain r where r: "handlePayment cashInput = Inr r" "totalDue r = Num 2000"
    "totalPaid r = totalDue r" "balance r = 0" "status r = Paid"
    by auto
  from r(1) have "r = ben"
    unfolding ben_def by (rule handlePayment_Inr)
  with r have 1: "handlePayment cashInput = Inr ben" "totalDue ben = Num 2000" "totalPaid ben = Num 2000"
    "balance ben = 0" "status ben = Paid"
    by simp_all
  from handlePayment_contract[of transferInput initial True] t fa
  obtain r' where r': "handlePayment transferInput = Inr r'" "totalDue r' = Num 3000"
    "totalPaid r' = 0" "balance r' = totalDue r'" "status r' = Pending"
    by auto
  from r'(1) have "r' = ada"
    unfolding ada_def by (rule handlePayment_Inr)
  with r' have 2: "handlePayment transferInput = Inr ada" "totalDue ada = Num 3000" "totalPaid ada = 0"
    "balance ada = Num 3000" "status ada = Pending"
    by simp_all
  from handlePayment_contract[of wrongPinInput initial True] w
  have 3: "handlePayment wrongPinInput = Inl (AuthorizationError ''Invalid Staff PIN'')"
    by blast
  with handlePayment_contract[of wrongPinInput initial True]
  have 4: "step initial (Register wrongPinInput, True) = initial"
    by blast
  from handlePayment_contract[of blankRefInput initial True] b
  have 5: "\<exists>message. handlePayment blankRefInput = Inl (ValidationError message)"
    by blast
  with handlePayment_contract[of blankRefInput initial True]
  have 6: "step initial (Register blankRefInput, True) = initial"
    by blast
  from handlePayment_contract[of transferInput initial True] 2(1) g
  have 7: "registrations (step initial (Register transferInput, True)) = [ada]"
    by (simp add: initial_def)
  from c t w b 1 2 3 4 5 6 7 show ?thesis
    by simp
qed

subsection \<open>Check-in\<close>

lemma find_by_id:
  "distinct (map reg_id regs) \<Longrightarrow> reg \<in> set regs \<Longrightarrow> reg_id reg = t \<Longrightarrow>
   find (\<lambda>r. reg_id r = t) regs = Some reg"
  by (induction regs) (auto simp: rev_image_eqI)

lemma find_by_id_absent:
  "t \<notin> set (map reg_id regs) \<Longrightarrow> find (\<lambda>r. reg_id r = t) regs = None"
  by (auto simp: find_None_iff)

text \<open>
  C6, as stated, fails: after the example day no record has the id typed here, which
  starts with a space, and the look-up finds Ben's record instead of reporting that the
  ticket is not found, because it compares with \<^verbatim>\<open>manualId.trim()\<close>.
\<close>

theorem padded_id_found:
  "paddedId \<notin> set (map reg_id (registrations (run exampleDay)))
   \<and> handleManualSearch (registrations (run exampleDay)) paddedId = Inr benAfter"
  by code_simp

text \<open>
  C6, amended. The identifier looked up is the text typed with the white space at both
  ends removed. When no record has it as id, the look-up fails with the not-found error;
  when the record that has it owes a positive balance, it fails with the
  payment-incomplete error that carries this balance; when that record owes nothing and is
  checked in already, the result is the record, shown in the already-checked-in view,
  which is not an error. A failed look-up saves no array and leaves the state as it is.
  The theorem takes the ids of the stored records to differ from one another, as "the
  record" with an id presupposes; nothing in the code enforces it.
\<close>

theorem handleManualSearch_contract:
  assumes "distinct (map reg_id regs)"
  shows "(trim manualId \<notin> set (map reg_id regs) \<longrightarrow>
           handleManualSearch regs manualId = Inl (NotFoundError ''Ticket ID not found''))
    \<and> (\<forall>reg \<in> set regs. reg_id reg = trim manualId \<and> 0 < balance reg \<longrightarrow>
           handleManualSearch regs manualId = Inl (PaymentIncompleteError (balance reg)))
    \<and> (\<forall>reg \<in> set regs. reg_id reg = trim manualId \<and> balance reg \<le> 0
             \<and> checkedIn reg = Some True \<longrightarrow>
           handleManualSearch regs manualId = Inr reg
           \<and> scanView reg = AlreadyCheckedIn reg
           \<and> checkIn regs manualId = (None, Already reg))
    \<and> (\<forall>e. handleManualSearch regs manualId = Inl e \<longrightarrow>
           checkIn regs manualId = (None, Failed e)
           \<and> (registrations s = regs \<longrightarrow> step s (Search manualId, stored) = s))"
proof -
  have absent: "handleManualSearch regs manualId = Inl (NotFoundError ''Ticket ID not found'')"
    if "trim manualId \<notin> set (map reg_id regs)"
    using find_by_id_absent[OF that] by (simp add: handleManualSearch_def)
  have found: "handleManualSearch regs manualId =
      (if 0 < balance reg then Inl (PaymentIncompleteError (balance reg)) else Inr reg)"
    if "reg \<in> set regs" and "reg_id reg = trim manualId" for reg
    using find_by_id[OF assms that] by (simp add: handleManualSearch_def)
  have already: "handleManualSearch regs manualId = Inr reg
       \<and> scanView reg = AlreadyCheckedIn reg \<and> checkIn regs manualId = (None, Already reg)"
    if "reg \<in> set regs" and "reg_id reg = trim manualId" and "balance reg \<le> 0"
      and "checkedIn reg = Some True" for reg
    using found[OF that(1,2)] that(4) le_zero_not_less[OF that(3)]
    by (simp add: checkIn_def scanView_def)
  have failure: "checkIn regs manualId = (None, Failed e)
       \<and> (registrations s = regs \<longrightarrow> step s (Search manualId, stored) = s)"
    if "handleManualSearch regs manualId = Inl e" for e
    using that by (auto simp: checkIn_def)
  from absent found already failure show ?thesis
    by auto
qed

theorem handleManualSearch_contract_witness:
  "distinct (map reg_id [adaOwing, benAfter])
   \<and> trim ''999'' \<notin> set (map reg_id [adaOwing, benAfter])
   \<and> handleManualSearch [adaOwing, benAfter] ''999'' = Inl (NotFoundError ''Ticket ID not found'')
   \<and> checkIn [adaOwing, benAfter] ''999'' = (None, Failed (NotFoundError ''Ticket ID not found''))
   \<and> adaOwing \<in> set [adaOwing, benAfter] \<and> reg_id adaOwing = trim ''1700000000000 ''
   \<and> balance adaOwing = Num 500
   \<and> handleManualSearch [adaOwing, benAfter] ''1700000000000 '' = Inl (PaymentIncompleteError (Num 500))
   \<and> checkIn [adaOwing, benAfter] ''1700000000000 '' = (None, Failed (PaymentIncompleteError (Num 500)))
   \<and> benAfter \<in> set [adaOwing, benAfter] \<and> reg_id benAfter = trim paddedId
   \<and> balance benAfter \<le> 0 \<and> checkedIn benAfter = Some True
   \<and> checkIn [adaOwing, benAfter] paddedId = (None, Already benAfter)"
proof -
  have ids: "reg_id adaOwing = ''1700000000000''" "reg_id benAfter = ''1700000005000''"
    by (simp_all add: adaOwing_def benAfter_def ada_def ben_def newRegistration_def
          transferInput_def cashInput_def)
  have tr: "trim ''999'' = ''999''" "trim ''1700000000000 '' = ''1700000000000''"
    "trim paddedId = ''1700000005000''"
    by code_simp+
  have d: "distinct (map reg_id [adaOwing, benAfter])"
    and n: "trim ''999'' \<notin> set (map reg_id [adaOwing, benAfter])"
    and a: "adaOwing \<in> set [adaOwing, benAfter]" "reg_id adaOwing = trim ''1700000000000 ''"
    and b: "benAfter \<in> set [adaOwing, benAfter]" "reg_id benAfter = trim paddedId"
    using ids tr by simp_all
  have f: "balance adaOwing = Num 500" "balance benAfter \<le> 0" "checkedIn benAfter = Some True"
    by (simp_all add: adaOwing_def benAfter_def ben_def newRegistration_def cashInput_def
          zero_le_zero)
  have owing: "0 < balance adaOwing"
    using f(1) by (simp add: zero_js_number_def)
  note c = handleManualSearch_contract[OF d, where s = initial and stored = True]
  from c[of "''999''"] n
  have 1: "handleManualSearch [adaOwing, benAfter] ''999'' = Inl (NotFoundError ''Ticket ID not found'')"
    by blast
  with c[of "''999''"]
  have 2: "checkIn [adaOwing, benAfter] ''999'' = (None, Failed (NotFoundError ''Ticket ID not found''))"
    by blast
  from c[of "''1700000000000 ''"] a owing
  have "handleManualSearch [adaOwing, benAfter] ''1700000000000 ''
      = Inl (PaymentIncompleteError (balance adaOwing))"
    by blast
  with f(1)
  have 3: "handleManualSearch [adaOwing, benAfter] ''1700000000000 '' = Inl (PaymentIncompleteError (Num 500))"
    by simp
  with c[of "''1700000000000 ''"]
  have 4: "checkIn [adaOwing, benAfter] ''1700000000000 '' = (None, Failed (PaymentIncompleteError (Num 500)))"
    by blast
  from c[of paddedId] b f(2,3)
  have 5: "checkIn [adaOwing, benAfter] paddedId = (None, Already benAfter)"
    by blast
  from d n a b f 1 2 3 4 5 show ?thesis
    by simp
qed

subsection \<open>The timer of an approval\<close>

text \<open>
  What holds of the handlers taken one at a time: \<^verbatim>\<open>handleApprove\<close> sets the three payment
  fields of the row; the Approve button does nothing on a row that is not pending and the
  Send button nothing on a row whose e-ticket is sent; a second \<^verbatim>\<open>sendETicket\<close> leaves
  \<open>ticketQR\<close> and \<open>emailSent\<close> as the first left them; and every event but the timer of
  an approval keeps a \<open>checkedIn\<close> flag that is true.
\<close>

lemma sendETicket_twice:
  assumes "k < length regs" and "reg_id (regs ! k) = reg_id reg"
  shows "ticketQR (fst (sendETicket (fst (sendETicket regs reg)) reg) ! k)
           = ticketQR (fst (sendETicket regs reg) ! k)
       \<and> emailSent (fst (sendETicket (fst (sendETicket regs reg)) reg) ! k)
           = emailSent (fst (sendETicket regs reg) ! k)"
  using assms by (simp add: sendETicket_def Let_def nth_updateRegistration spread_def)

lemma step_SendTicket_sent:
  "k < length (registrations s) \<Longrightarrow> emailSent (registrations s ! k) = Some True \<Longrightarrow>
   step s (SendTicket k, stored) = s"
  by simp

lemma step_Approve_not_pending:
  "k < length (registrations s) \<Longrightarrow> status (registrations s ! k) \<noteq> Pending \<Longrightarrow>
   step s (Approve k, stored) = s"
  by simp

lemma handleApprove_sets:
  "k < length regs \<Longrightarrow>
   handleApprove regs (regs ! k) ! k = (regs ! k)\<lparr>status := Paid, totalPaid := totalDue (regs ! k), balance := 0\<rparr>"
  by (simp add: handleApprove_def nth_updateRegistration spread_def)

lemma checkedIn_kept:
  assumes "e \<noteq> ApproveTimer" and "k < length (registrations s)"
    and "checkedIn (registrations s ! k) = Some True"
  shows "k < length (registrations (step s (e, stored)))
       \<and> checkedIn (registrations (step s (e, stored)) ! k) = Some True"
proof (cases e)
  case (Register p)
  with assms show ?thesis
    by (auto simp: saveRegistrations_def addRegistration_def nth_append split: sum.splits)
next
  case (Approve j)
  with assms show ?thesis
    by (auto simp: saveRegistrations_def handleApprove_def nth_updateRegistration spread_def)
next
  case ApproveTimer
  with assms show ?thesis by simp
next
  case (AddPayment j amount)
  with assms show ?thesis
    by (auto simp: saveRegistrations_def handleAddPartialPayment_def Let_def
          nth_updateRegistration spread_def split: if_splits)
next
  case (SendTicket j)
  with assms show ?thesis
    by (auto simp: saveRegistrations_def sendETicket_def Let_def nth_updateRegistration spread_def)
next
  case (Search manualId)
  with assms show ?thesis
    by (auto split: sum.splits)
next
  case CheckIn
  with assms show ?thesis
    by (auto simp: saveRegistrations_def handleCheckIn_def nth_updateRegistration spread_def
             split: option.splits scan_view.splits)
next
  case ResetScanner
  with assms show ?thesis by simp
next
  case Reload
  with assms show ?thesis by simp
qed

text \<open>
  C5 at its failing input. Ada's pending transfer is approved: the array saved at once has
  her record paid, 3000 paid and balance 0. Half a second later the timer of the approval
  calls the \<^verbatim>\<open>sendETicket\<close> of the render in which Approve was clicked, which maps over the
  array of that render and saves the result: her record is pending again, nothing paid,
  balance 3000, with the e-ticket marked as sent.
\<close>

theorem approval_undone_by_its_timer:
  "map (\<lambda>r. (status r, totalPaid r, balance r, emailSent r))
       (registrations (run [(Register transferInput, True), (Approve 0, True)]))
     = [(Paid, Num 3000, Num 0, None)]
   \<and> map (\<lambda>r. (status r, totalPaid r, balance r, emailSent r)) (registrations (run approvedOnce))
     = [(Pending, Num 0, Num 3000, Some True)]"
  by code_simp

text \<open>
  C7 at its failing input. After the first approval and its timer Ada's record is pending
  with \<open>emailSent\<close> true, so the Approve button is rendered again; the timer of the second
  approval issues the same e-ticket a second time.
\<close>

theorem eticket_issued_again_after_sent:
  "map (\<lambda>r. (status r, paymentMethod r, emailSent r)) (registrations (run approvedOnce))
     = [(Pending, Some Transfer, Some True)]
   \<and> map mail_to (mailed (run approvedOnce)) = [''ada@example.com'']
   \<and> map mail_to (mailed (run approvedTwice)) = [''ada@example.com'', ''ada@example.com'']
   \<and> map mail_qrCode (mailed (run approvedTwice)) = [generateQRCode ada, generateQRCode ada]"
  by code_simp

text \<open>
  C8 at its failing inputs. Ben is checked in between the click on Approve for Ada and the
  timer of that approval; the array that the timer saves is the one of the click, in which
  Ben is not checked in. And after a check-in the page still holds the record as it was
  found, so it renders the valid-ticket view with its button, not the already-checked-in
  view, and a second press calls \<^verbatim>\<open>handleCheckIn\<close> again.
\<close>

theorem checkedIn_lost_to_stale_timer:
  "map checkedIn (registrations (run checkInBeforeTimer)) = [None, Some True]
   \<and> map checkedIn (registrations (run (checkInBeforeTimer @ [(ApproveTimer, True)])))
     = [None, None]
   \<and> map checkedIn (registrations (run checkedInOnce)) = [Some True]
   \<and> map_option scanView (scanResult (run checkedInOnce)) = Some (ValidTicket ben)
   \<and> handleCheckIn (registrations (run checkedInOnce)) (scanResult (run checkedInOnce))
       = Some (registrations (run checkedInOnce))"
  by code_simp

end
